theory Spec2Isabelle
  imports Complex_Main "HOL-Library.Word"
begin

section \<open>Speech transcription service: a shallow embedding of main.py and config.py\<close>

text \<open>
  The service of \<^verbatim>\<open>src/speech-transcription/main.py\<close> is a thin pipeline over external
  libraries (torch, transformers, librosa, numpy, tempfile, os, FastAPI). The functions
  of main.py are embedded one by one; every library call is a field of the record
  \<open>env\<close>, so that each theorem holds for every behaviour of the libraries, and every
  exception is a value of the type \<open>exn\<close>.
\<close>

subsection \<open>Exceptions\<close>

text \<open>
  \<open>HTTPException status_code detail\<close> is FastAPI's exception, which only main.py
  raises; \<open>PyException msg\<close> is any other subclass of Python's \<open>Exception\<close>, carrying
  the text \<open>str(e)\<close>. Both are caught by \<^verbatim>\<open>except Exception\<close>: \<open>HTTPException\<close>
  derives from \<open>Exception\<close>. A library call that can raise returns \<open>Inl msg\<close> with the
  text of its exception, and \<open>lib\<close> turns that into the raised \<open>PyException\<close>.
\<close>

datatype exn = HTTPException nat string | PyException string

definition lib :: "string + 'a \<Rightarrow> exn + 'a" where
  "lib r = (case r of Inl msg \<Rightarrow> Inl (PyException msg) | Inr v \<Rightarrow> Inr v)"

definition and_then :: "exn + 'a \<Rightarrow> ('a \<Rightarrow> exn + 'b) \<Rightarrow> exn + 'b" where
  "and_then r f = (case r of Inl e \<Rightarrow> Inl e | Inr v \<Rightarrow> f v)"

subsection \<open>Floating-point samples\<close>

text \<open>
  A sample of a numpy array is a finite number or one of the IEEE special values.
  Rounding is not modelled: a finite sample is a real. \<open>librosa.load\<close> checks that the
  decoded buffer is finite everywhere (and raises otherwise), so a decoded waveform is a
  list of reals; the quotient array computed by \<open>preprocess_audio\<close> is a list of samples.
\<close>

datatype sample = Fin real | NaN | PosInf | NegInf

text \<open>\<^verbatim>\<open>np.max\<close> of a one-dimensional array: a zero-size array raises ValueError.\<close>

fun np_max :: "real list \<Rightarrow> string + real" where
  "np_max [] = Inl ''zero-size array to reduction operation maximum which has no identity''"
| "np_max (x # xs) = Inr (fold max xs x)"

text \<open>
  numpy's true division of one finite sample by a finite scalar: division by zero does
  not raise (numpy only warns), it gives NaN for \<open>0 / 0\<close> and a signed infinity otherwise.
\<close>

definition np_divide :: "real \<Rightarrow> real \<Rightarrow> sample" where
  "np_divide x d =
     (if d = 0 then (if x = 0 then NaN else if 0 < x then PosInf else NegInf)
      else Fin (x / d))"

subsection \<open>Python strings\<close>

text \<open>
  The transcript is built from the tokenizer's vocabulary, which is ASCII; a Python
  string is modelled as a list of 8-bit characters, read as the code points 0 to 255.
  On these code points \<open>str.isupper\<close> holds for A to Z and for U+00C0 to U+00DE except
  the multiplication sign U+00D7, \<open>str.lower\<close> adds 32 to exactly those, and
  \<open>str.isspace\<close> holds for U+0009 to U+000D, U+001C to U+0020, U+0085 and U+00A0.
\<close>

definition py_isupper :: "char \<Rightarrow> bool" where
  "py_isupper c =
     (let n = (of_char c :: nat)
      in (65 \<le> n \<and> n \<le> 90) \<or> (192 \<le> n \<and> n \<le> 222 \<and> n \<noteq> 215))"

definition py_isspace :: "char \<Rightarrow> bool" where
  "py_isspace c =
     (let n = (of_char c :: nat)
      in (9 \<le> n \<and> n \<le> 13) \<or> (28 \<le> n \<and> n \<le> 32) \<or> n = 133 \<or> n = 160)"

definition py_lower_char :: "char \<Rightarrow> char" where
  "py_lower_char c = (if py_isupper c then char_of ((of_char c :: nat) + 32) else c)"

definition py_lower :: "string \<Rightarrow> string" where
  "py_lower s = map py_lower_char s"

definition py_strip :: "string \<Rightarrow> string" where
  "py_strip s = rev (dropWhile py_isspace (rev (dropWhile py_isspace s)))"

definition startswith :: "string \<Rightarrow> string \<Rightarrow> bool" where
  "startswith s p = (take (length p) s = p)"

subsection \<open>Configuration (config.py)\<close>

definition MODEL_NAME :: string where
  "MODEL_NAME = ''facebook/wav2vec2-base-960h''"

definition TARGET_SAMPLE_RATE :: nat where
  "TARGET_SAMPLE_RATE = 16000"

definition MAX_FILE_SIZE :: nat where
  "MAX_FILE_SIZE = 50 * 1024 * 1024"

definition ALLOWED_AUDIO_TYPES :: "string list" where
  "ALLOWED_AUDIO_TYPES =
     [''audio/wav'', ''audio/mpeg'', ''audio/mp3'', ''audio/flac'', ''audio/m4a'',
      ''audio/ogg'', ''audio/webm'']"

definition ALLOWED_EXTENSIONS :: "string list" where
  "ALLOWED_EXTENSIONS = [''.wav'', ''.mp3'', ''.flac'', ''.m4a'', ''.ogg'', ''.webm'']"

subsection \<open>Objects of the libraries\<close>

type_synonym path = string
type_synonym bytes = "8 word list"
type_synonym filesystem = "path \<rightharpoonup> bytes"

datatype device = Cuda | Cpu

text \<open>
  Tensors as nested lists: the tokenizer's \<open>input_values\<close> is a batch of waveforms, the
  model's logits are batch by time step by vocabulary entry, \<open>predicted_ids\<close> is batch by
  time step. A tokenizer and a model are the bundles of the methods main.py calls on
  them.
\<close>

type_synonym tensor = "sample list list"
type_synonym logits = "sample list list list"

record tokenizer_obj =
  tok_call :: "sample list \<Rightarrow> string + tensor"
  tok_decode :: "nat list \<Rightarrow> string + string"

record model_obj =
  forward :: "tensor \<Rightarrow> string + logits"

text \<open>
  The external calls of main.py. \<open>os_unlink\<close>, \<open>temp_write\<close> and \<open>temp_flush\<close> give
  \<open>None\<close> when the call succeeds and the text of the exception raised otherwise.
  \<open>http_exception_str\<close> is \<open>str(e)\<close> of an \<open>HTTPException\<close>, which the installed
  Starlette defines.
\<close>

record env =
  cuda_is_available :: bool
  tokenizer_from_pretrained :: "string \<Rightarrow> string + tokenizer_obj"
  model_from_pretrained :: "string \<Rightarrow> string + model_obj"
  model_to :: "model_obj \<Rightarrow> device \<Rightarrow> string + model_obj"
  model_eval :: "model_obj \<Rightarrow> string + model_obj"
  librosa_load :: "filesystem \<Rightarrow> path \<Rightarrow> nat \<Rightarrow> string + real list"
  tensor_to :: "tensor \<Rightarrow> device option \<Rightarrow> string + tensor"
  torch_argmax :: "logits \<Rightarrow> string + nat list list"
  named_temporary_file :: "filesystem \<Rightarrow> string \<Rightarrow> string + path"
  temp_write :: "path \<Rightarrow> bytes \<Rightarrow> string option"
  temp_flush :: "path \<Rightarrow> string option"
  os_unlink :: "path \<Rightarrow> string option"
  http_exception_str :: "nat \<Rightarrow> string \<Rightarrow> string"
  torch_version :: string

definition str_exn :: "env \<Rightarrow> exn \<Rightarrow> string" where
  "str_exn env e =
     (case e of PyException msg \<Rightarrow> msg | HTTPException c d \<Rightarrow> http_exception_str env c d)"

subsection \<open>Process-wide model state\<close>

text \<open>The globals \<^verbatim>\<open>model\<close>, \<^verbatim>\<open>tokenizer\<close> and \<^verbatim>\<open>device\<close>, all \<open>None\<close> at import.\<close>

record globals =
  model :: "model_obj option"
  tokenizer :: "tokenizer_obj option"
  device :: "device option"

definition initial_globals :: globals where
  "initial_globals = \<lparr>model = None, tokenizer = None, device = None\<rparr>"

text \<open>
  \<^verbatim>\<open>load_model\<close> assigns the globals one after the other inside its \<^verbatim>\<open>try\<close>; an
  exception leaves the assignments made so far and returns False. \<open>model.to\<close> and
  \<open>model.eval\<close> work on the object already bound to the global \<^verbatim>\<open>model\<close>.
\<close>

definition load_model :: "env \<Rightarrow> globals \<Rightarrow> bool \<times> globals" where
  "load_model env g =
     (let d = (if cuda_is_available env then Cuda else Cpu);
          g1 = g\<lparr>device := Some d\<rparr>
      in case tokenizer_from_pretrained env ''facebook/wav2vec2-base-960h'' of
           Inl e \<Rightarrow> (False, g1)
         | Inr t \<Rightarrow>
             (let g2 = g1\<lparr>tokenizer := Some t\<rparr>
              in case model_from_pretrained env ''facebook/wav2vec2-base-960h'' of
                   Inl e \<Rightarrow> (False, g2)
                 | Inr m \<Rightarrow>
                     (let g3 = g2\<lparr>model := Some m\<rparr>
                      in case model_to env m d of
                           Inl e \<Rightarrow> (False, g3)
                         | Inr m1 \<Rightarrow>
                             (case model_eval env m1 of
                                Inl e \<Rightarrow> (False, g3\<lparr>model := Some m1\<rparr>)
                              | Inr m2 \<Rightarrow> (True, g3\<lparr>model := Some m2\<rparr>)))))"

text \<open>\<^verbatim>\<open>startup_event\<close>: the state every request sees is the one \<open>load_model\<close> left.\<close>

definition startup_event :: "env \<Rightarrow> globals \<Rightarrow> globals" where
  "startup_event env g = snd (load_model env g)"

subsection \<open>Audio preprocessor\<close>

text \<open>
  \<^verbatim>\<open>preprocess_audio\<close>: load at 16000 Hz, divide every sample by the maximum absolute
  sample; any exception of the body becomes \<open>HTTPException 400\<close>.
\<close>

definition preprocess_audio :: "env \<Rightarrow> filesystem \<Rightarrow> path \<Rightarrow> exn + sample list" where
  "preprocess_audio env fs audio_path =
     (case and_then (lib (librosa_load env fs audio_path 16000)) (\<lambda>audio.
           and_then (lib (np_max (map abs audio))) (\<lambda>peak.
           Inr (map (\<lambda>x. np_divide x peak) audio)))
      of Inl e \<Rightarrow> Inl (HTTPException 400 (''Audio preprocessing failed: '' @ str_exn env e))
       | Inr audio \<Rightarrow> Inr audio)"

subsection \<open>Transcriber\<close>

text \<open>
  Lines 79 to 88 of \<^verbatim>\<open>transcribe_audio\<close>: tokenizer call, move to the device, forward
  pass, argmax, \<open>tokenizer.decode(predicted_ids[0])\<close>. Calling a global that is \<open>None\<close>
  raises TypeError, indexing an empty batch raises IndexError.
\<close>

definition decoded_text :: "env \<Rightarrow> globals \<Rightarrow> sample list \<Rightarrow> exn + string" where
  "decoded_text env g audio =
     (case tokenizer g of
        None \<Rightarrow> Inl (PyException ''NoneType object is not callable'')
      | Some tok \<Rightarrow>
          and_then (lib (tok_call tok audio)) (\<lambda>input_values.
          and_then (lib (tensor_to env input_values (device g))) (\<lambda>input_values.
          (case model g of
             None \<Rightarrow> Inl (PyException ''NoneType object is not callable'')
           | Some m \<Rightarrow>
               and_then (lib (forward m input_values)) (\<lambda>lg.
               and_then (lib (torch_argmax env lg)) (\<lambda>predicted_ids.
               (case predicted_ids of
                  [] \<Rightarrow> Inl (PyException ''index 0 is out of bounds for dimension 0 with size 0'')
                | ids0 # rest \<Rightarrow> lib (tok_decode tok ids0))))))))"

text \<open>
  \<^verbatim>\<open>transcribe_audio\<close>: the decoded text, lowercased then stripped; any exception of the
  body becomes \<open>HTTPException 500\<close>.
\<close>

definition transcribe_audio :: "env \<Rightarrow> globals \<Rightarrow> sample list \<Rightarrow> exn + string" where
  "transcribe_audio env g audio =
     (case and_then (decoded_text env g audio) (\<lambda>transcription.
           Inr (py_strip (py_lower transcription)))
      of Inl e \<Rightarrow> Inl (HTTPException 500 (''Transcription failed: '' @ str_exn env e))
       | Inr t \<Rightarrow> Inr t)"

subsection \<open>Request handlers\<close>

text \<open>
  An upload as the handler reads it: \<open>content_type\<close> is \<open>None\<close> when the part has no
  Content-Type header, \<open>read_result\<close> is the outcome of \<^verbatim>\<open>await file.read()\<close>.
\<close>

record upload_file =
  filename :: string
  content_type :: "string option"
  read_result :: "string + bytes"

text \<open>
  The world a request acts on: the files on disk, and the calls made so far to the
  temporary-file, preprocessing, transcription and deletion steps, in order.
\<close>

datatype event =
    TempCreated path
  | TempWritten path
  | Preprocess path
  | Transcribe
  | Unlink path

record world =
  files :: filesystem
  calls :: "event list"

definition log_call :: "event \<Rightarrow> world \<Rightarrow> world" where
  "log_call ev w = w\<lparr>calls := calls w @ [ev]\<rparr>"

text \<open>The calls a request added to the world, and the test for a preprocessing call.\<close>

definition new_calls :: "world \<Rightarrow> world \<Rightarrow> event list" where
  "new_calls w w1 = drop (length (calls w)) (calls w1)"

fun is_preprocess :: "event \<Rightarrow> bool" where
  "is_preprocess (Preprocess p) = True"
| "is_preprocess ev = False"

text \<open>
  The body of the \<^verbatim>\<open>try\<close> block of \<^verbatim>\<open>transcribe_file\<close> (lines 213 to 231). The write
  puts the content into the scratch file (the buffering between \<open>write\<close> and \<open>flush\<close> is
  not modelled).
\<close>

definition try_block ::
  "env \<Rightarrow> globals \<Rightarrow> world \<Rightarrow> upload_file \<Rightarrow> path \<Rightarrow> (exn + (string \<times> string) list) \<times> world" where
  "try_block env g w file name =
     (case read_result file of
        Inl msg \<Rightarrow> (Inl (PyException msg), w)
      | Inr content \<Rightarrow>
          (case temp_write env name content of
             Some msg \<Rightarrow> (Inl (PyException msg), w)
           | None \<Rightarrow>
               (let w1 = log_call (TempWritten name) (w\<lparr>files := (files w)(name \<mapsto> content)\<rparr>)
                in case temp_flush env name of
                     Some msg \<Rightarrow> (Inl (PyException msg), w1)
                   | None \<Rightarrow>
                       (let w2 = log_call (Preprocess name) w1
                        in case preprocess_audio env (files w2) name of
                             Inl e \<Rightarrow> (Inl e, w2)
                           | Inr audio \<Rightarrow>
                               (let w3 = log_call Transcribe w2
                                in case transcribe_audio env g audio of
                                     Inl e \<Rightarrow> (Inl e, w3)
                                   | Inr transcription \<Rightarrow>
                                       (Inr [(''filename'', filename file),
                                             (''transcription'', transcription),
                                             (''status'', ''success'')], w3))))))"

text \<open>
  The \<^verbatim>\<open>finally\<close> block: \<open>os.unlink\<close> is called, and an exception it raises is
  swallowed, leaving the file where it is.
\<close>

definition finally_block :: "env \<Rightarrow> world \<Rightarrow> path \<Rightarrow> world" where
  "finally_block env w name =
     (let w1 = log_call (Unlink name) w
      in case os_unlink env name of
           None \<Rightarrow> w1\<lparr>files := (files w1)(name := None)\<rparr>
         | Some msg \<Rightarrow> w1)"

text \<open>
  \<^verbatim>\<open>transcribe_file\<close>. \<open>not file.content_type\<close> holds for \<open>None\<close> and for the empty
  string and is tested first (Python's \<open>or\<close> is short-circuit). An exception of
  \<open>NamedTemporaryFile\<close> is raised outside the \<^verbatim>\<open>try\<close> and leaves the handler as it is.
  Closing the file object on leaving the \<^verbatim>\<open>with\<close> block and the logger calls are not
  modelled.
\<close>

definition transcribe_file ::
  "env \<Rightarrow> globals \<Rightarrow> world \<Rightarrow> upload_file \<Rightarrow> (exn + (string \<times> string) list) \<times> world" where
  "transcribe_file env g w file =
     (if model g = None \<or> tokenizer g = None
      then (Inl (HTTPException 503 ''Model not loaded. Please check health endpoint.''), w)
      else
        (case content_type file of
           None \<Rightarrow> (Inl (HTTPException 400 ''Please upload an audio file''), w)
         | Some ct \<Rightarrow>
             if ct = [] then (Inl (HTTPException 400 ''Please upload an audio file''), w)
             else if \<not> startswith ct ''audio/''
             then (Inl (HTTPException 400 ''Please upload an audio file''), w)
             else
               (case named_temporary_file env (files w) ''.wav'' of
                  Inl msg \<Rightarrow> (Inl (PyException msg), w)
                | Inr name \<Rightarrow>
                    (let w0 = log_call (TempCreated name) (w\<lparr>files := (files w)(name \<mapsto> [])\<rparr>);
                         (r, w1) = try_block env g w0 file name;
                         r1 = (case r of
                                 Inl e \<Rightarrow> Inl (HTTPException 500 (str_exn env e))
                               | Inr v \<Rightarrow> Inr v)
                     in (r1, finally_block env w1 name)))))"

text \<open>\<^verbatim>\<open>model_info\<close>: a dictionary literal.\<close>

definition model_info :: "(string \<times> string) list" where
  "model_info =
     [(''model_name'', ''facebook/wav2vec2-base-960h''),
      (''model_type'', ''Wav2Vec2ForCTC''),
      (''supported_sample_rate'', ''16000 Hz''),
      (''supported_formats'', ''wav, mp3, flac, m4a, ogg'')]"

text \<open>\<^verbatim>\<open>health_check\<close>; nothing in its \<^verbatim>\<open>try\<close> raises.\<close>

definition str_device :: "device \<Rightarrow> string" where
  "str_device d = (case d of Cuda \<Rightarrow> ''cuda'' | Cpu \<Rightarrow> ''cpu'')"

definition health_check :: "env \<Rightarrow> globals \<Rightarrow> (string \<times> string) list" where
  "health_check env g =
     [(''status'', ''healthy''),
      (''model_status'', if model g \<noteq> None then ''loaded'' else ''not_loaded''),
      (''device'', case device g of Some d \<Rightarrow> str_device d | None \<Rightarrow> ''unknown''),
      (''torch_version'', torch_version env)]"

subsection \<open>The HTTP boundary\<close>

text \<open>
  The JSON routes that the decorators of main.py register (the HTML page of \<open>GET /\<close> is
  presentation only and is left out). \<open>request_data\<close> stands for the query string,
  headers and body of a request, which no handler but \<open>transcribe_file\<close> reads. FastAPI
  answers a returned dictionary with status 200, an \<open>HTTPException\<close> with its own status
  code and its detail, and any other exception with 500.
\<close>

datatype route = GetHealth | PostTranscribe upload_file | GetModelsInfo

record request =
  target :: route
  request_data :: "(string \<times> string) list"

datatype body = Json "(string \<times> string) list" | PlainText string

definition respond :: "exn + (string \<times> string) list \<Rightarrow> nat \<times> body" where
  "respond r =
     (case r of
        Inr d \<Rightarrow> (200, Json d)
      | Inl (HTTPException c detail) \<Rightarrow> (c, Json [(''detail'', detail)])
      | Inl (PyException msg) \<Rightarrow> (500, PlainText ''Internal Server Error''))"

definition http_status :: "exn + (string \<times> string) list \<Rightarrow> nat" where
  "http_status r = fst (respond r)"

definition app :: "env \<Rightarrow> globals \<Rightarrow> world \<Rightarrow> request \<Rightarrow> (nat \<times> body) \<times> world" where
  "app env g w rq =
     (case target rq of
        GetHealth \<Rightarrow> (respond (Inr (health_check env g)), w)
      | PostTranscribe file \<Rightarrow>
          (let (r, w1) = transcribe_file env g w file in (respond r, w1))
      | GetModelsInfo \<Rightarrow> (respond (Inr model_info), w))"

subsection \<open>A concrete environment\<close>

text \<open>
  A small, fully computable instance of the libraries, used to run the handlers on
  concrete requests: the decoder rejects an empty file and reads every byte as one
  sample; the tokenizer decodes every id sequence to a fixed text.
\<close>

definition demo_tokenizer :: tokenizer_obj where
  "demo_tokenizer =
     \<lparr>tok_call = (\<lambda>audio. Inr [audio]), tok_decode = (\<lambda>ids. Inr '' HELLO WORLD '')\<rparr>"

definition demo_model :: model_obj where
  "demo_model = \<lparr>forward = (\<lambda>t. Inr [[[Fin 0, Fin 1]]])\<rparr>"

definition demo_load :: "filesystem \<Rightarrow> path \<Rightarrow> nat \<Rightarrow> string + real list" where
  "demo_load fs p sr =
     (case fs p of
        None \<Rightarrow> Inl ''No such file or directory''
      | Some bs \<Rightarrow>
          if bs = [] then Inl ''Error opening file: format not recognised''
          else Inr (map (\<lambda>b. real (unat b)) bs))"

definition demo_env :: env where
  "demo_env =
     \<lparr>cuda_is_available = False,
      tokenizer_from_pretrained = (\<lambda>n. Inr demo_tokenizer),
      model_from_pretrained = (\<lambda>n. Inr demo_model),
      model_to = (\<lambda>m d. Inr m),
      model_eval = (\<lambda>m. Inr m),
      librosa_load = demo_load,
      tensor_to = (\<lambda>t d. Inr t),
      torch_argmax = (\<lambda>lg. Inr [[1]]),
      named_temporary_file = (\<lambda>fs suffix. Inr (''/tmp/tmpq3x'' @ suffix)),
      temp_write = (\<lambda>p b. None),
      temp_flush = (\<lambda>p. None),
      os_unlink = (\<lambda>p. None),
      http_exception_str = (\<lambda>c d. d),
      torch_version = ''2.0.0''\<rparr>"

definition loaded_globals :: globals where
  "loaded_globals = \<lparr>model = Some demo_model, tokenizer = Some demo_tokenizer, device = Some Cpu\<rparr>"

definition locked_env :: env where
  "locked_env = demo_env\<lparr>os_unlink := (\<lambda>p. Some ''Permission denied'')\<rparr>"

definition offline_env :: env where
  "offline_env = demo_env\<lparr>tokenizer_from_pretrained := (\<lambda>n. Inl ''Connection error'')\<rparr>"

definition empty_world :: world where
  "empty_world = \<lparr>files = Map.empty, calls = []\<rparr>"

definition upload :: "string option \<Rightarrow> bytes \<Rightarrow> upload_file" where
  "upload ct bs = \<lparr>filename = ''clip.wav'', content_type = ct, read_result = Inr bs\<rparr>"

section \<open>Properties\<close>

subsection \<open>Peak normalization\<close>

lemma np_max_nonempty: "xs \<noteq> [] \<Longrightarrow> np_max xs = Inr (Max (set xs))"
  by (cases xs) (simp_all add: Max.set_eq_fold [symmetric])

lemma peak_pos:
  assumes "list_ex (\<lambda>x. x \<noteq> 0) (audio :: real list)"
  shows "0 < Max (abs ` set audio)"
proof -
  from assms obtain x where x: "x \<in> set audio" "x \<noteq> (0::real)"
    by (auto simp: list_ex_iff)
  have "\<bar>x\<bar> \<le> Max (abs ` set audio)"
    using x(1) by (intro Max_ge) auto
  with x(2) show ?thesis by linarith
qed

lemma normalized_max:
  assumes "list_ex (\<lambda>x. x \<noteq> 0) (audio :: real list)"
  shows "Max ((\<lambda>x. \<bar>x / Max (abs ` set audio)\<bar>) ` set audio) = 1"
proof -
  let ?M = "Max (abs ` set audio)"
  have pos: "0 < ?M" using assms by (rule peak_pos)
  from assms have ne: "set audio \<noteq> {}" by (auto simp: list_ex_iff)
  have "?M \<in> abs ` set audio"
    by (rule Max_in) (use ne in auto)
  then obtain y where y: "y \<in> set audio" "\<bar>y\<bar> = ?M" by auto
  show ?thesis
  proof (rule Max_eqI)
    show "finite ((\<lambda>x. \<bar>x / ?M\<bar>) ` set audio)" by simp
  next
    fix z assume "z \<in> (\<lambda>x. \<bar>x / ?M\<bar>) ` set audio"
    then obtain x where x: "x \<in> set audio" "z = \<bar>x / ?M\<bar>" by auto
    have "\<bar>x\<bar> \<le> ?M" using x(1) by (intro Max_ge) auto
    then show "z \<le> 1" using pos x(2) by simp
  next
    have "\<bar>y / ?M\<bar> = 1" using y(2) pos by simp
    then show "1 \<in> (\<lambda>x. \<bar>x / ?M\<bar>) ` set audio" using y(1) by force
  qed
qed

lemma funpow_max_zero: "(max (0::real) ^^ n) 0 = 0"
  by (induction n) simp_all

text \<open>
  A silent waveform of any positive length: the peak is 0, nothing guards the division,
  and every sample of the result is NaN.
\<close>

lemma preprocess_audio_silent:
  assumes "librosa_load env fs p 16000 = Inr (replicate (Suc n) 0)"
  shows "preprocess_audio env fs p = Inr (replicate (Suc n) NaN)"
  using assms
  by (simp add: preprocess_audio_def and_then_def lib_def np_divide_def funpow_max_zero
      map_replicate_const)

lemma preprocess_audio_failure:
  "librosa_load env fs p 16000 = Inl msg \<Longrightarrow>
   preprocess_audio env fs p = Inl (HTTPException 400 (''Audio preprocessing failed: '' @ msg))"
  by (simp add: preprocess_audio_def and_then_def lib_def str_exn_def)

lemma demo_env_simps:
  "librosa_load demo_env = demo_load"
  "named_temporary_file demo_env = (\<lambda>fs suffix. Inr (''/tmp/tmpq3x'' @ suffix))"
  "temp_write demo_env = (\<lambda>p b. None)"
  "temp_flush demo_env = (\<lambda>p. None)"
  "os_unlink demo_env = (\<lambda>p. None)"
  "tensor_to demo_env = (\<lambda>t d. Inr t)"
  "torch_argmax demo_env = (\<lambda>lg. Inr [[1]])"
  "http_exception_str demo_env = (\<lambda>c d. d)"
  "tokenizer_from_pretrained demo_env = (\<lambda>n. Inr demo_tokenizer)"
  "model_from_pretrained demo_env = (\<lambda>n. Inr demo_model)"
  "cuda_is_available demo_env = False"
  by (simp_all add: demo_env_def)

text \<open>
  Claim C1. For an all-zero (silent) input waveform the output of the peak normalization
  is to contain no NaN or Inf, the division being guarded. The code has no guard: on the
  decoded waveform of three zero samples \<open>preprocess_audio\<close> returns three NaN.
\<close>

theorem silent_waveform_yields_nan:
  "preprocess_audio demo_env [''/tmp/silence.wav'' \<mapsto> [0, 0, 0]] ''/tmp/silence.wav''
     = Inr [NaN, NaN, NaN]"
  by (simp add: preprocess_audio_def demo_env_simps demo_load_def and_then_def lib_def
      np_divide_def)

text \<open>
  Claim C7. For every non-silent decoded waveform (some sample is not zero) the
  preprocessor returns every sample divided by the peak absolute value, and the maximum
  absolute sample value of the returned waveform is exactly 1.
\<close>

theorem preprocess_audio_peak_normalized:
  assumes "librosa_load env fs p 16000 = Inr audio"
    and "list_ex (\<lambda>x. x \<noteq> 0) audio"
  shows "preprocess_audio env fs p
           = Inr (map Fin (map (\<lambda>x. x / Max (abs ` set audio)) audio))
       \<and> Max (abs ` set (map (\<lambda>x. x / Max (abs ` set audio)) audio)) = 1"
proof -
  from assms(2) have ne: "map abs audio \<noteq> []" by (auto simp: list_ex_iff)
  have pos: "0 < Max (abs ` set audio)" using assms(2) by (rule peak_pos)
  have "np_max (map abs audio) = Inr (Max (abs ` set audio))"
    using np_max_nonempty [OF ne] by simp
  with assms(1) pos
  have "preprocess_audio env fs p = Inr (map Fin (map (\<lambda>x. x / Max (abs ` set audio)) audio))"
    by (simp add: preprocess_audio_def and_then_def lib_def np_divide_def)
  moreover have "Max (abs ` set (map (\<lambda>x. x / Max (abs ` set audio)) audio)) = 1"
    using normalized_max [OF assms(2)] by (simp add: image_image)
  ultimately show ?thesis by simp
qed

theorem preprocess_audio_peak_normalized_witness:
  "librosa_load demo_env [''a.wav'' \<mapsto> [3, 4, 1]] ''a.wav'' 16000 = Inr [3, 4, 1]
   \<and> list_ex (\<lambda>x. x \<noteq> 0) [3, 4, 1 :: real]
   \<and> preprocess_audio demo_env [''a.wav'' \<mapsto> [3, 4, 1]] ''a.wav''
       = Inr [Fin (3 / 4), Fin 1, Fin (1 / 4)]"
proof -
  have h1: "librosa_load demo_env [''a.wav'' \<mapsto> [3, 4, 1]] ''a.wav'' 16000 = Inr [3, 4, 1]"
    by (simp add: demo_env_simps demo_load_def)
  have h2: "list_ex (\<lambda>x. x \<noteq> 0) [3, 4, 1 :: real]" by simp
  show ?thesis
    using h1 h2 preprocess_audio_peak_normalized [OF h1 h2] by simp
qed

subsection \<open>Lowercasing and stripping\<close>

lemma py_lower_char_not_upper: "\<not> py_isupper (py_lower_char c)"
proof (cases "py_isupper c")
  case False
  then show ?thesis by (simp add: py_lower_char_def)
next
  case True
  then have "(of_char c :: nat) + 32 < 256"
    by (auto simp: py_isupper_def Let_def)
  then have "(of_char (char_of ((of_char c :: nat) + 32)) :: nat) = of_char c + 32"
    by simp
  with True show ?thesis
    by (auto simp: py_lower_char_def py_isupper_def Let_def)
qed

lemma py_lower_no_upper: "list_all (\<lambda>c. \<not> py_isupper c) (py_lower s)"
  by (simp add: py_lower_def list_all_iff py_lower_char_not_upper)

lemma set_py_strip: "set (py_strip s) \<subseteq> set s"
proof -
  have "set (py_strip s) \<subseteq> set (dropWhile py_isspace s)"
    unfolding py_strip_def using set_dropWhileD by fastforce
  also have "\<dots> \<subseteq> set s" using set_dropWhileD by fastforce
  finally show ?thesis .
qed

lemma py_strip_last: "py_strip s \<noteq> [] \<Longrightarrow> \<not> py_isspace (last (py_strip s))"
  unfolding py_strip_def by (simp add: last_rev hd_dropWhile)

lemma py_strip_hd:
  assumes "py_strip s \<noteq> []"
  shows "\<not> py_isspace (hd (py_strip s))"
proof -
  let ?ys = "dropWhile py_isspace s"
  have split: "?ys = py_strip s @ rev (takeWhile py_isspace (rev ?ys))"
  proof -
    have "rev ?ys = takeWhile py_isspace (rev ?ys) @ dropWhile py_isspace (rev ?ys)"
      by simp
    then have "rev (rev ?ys)
        = rev (takeWhile py_isspace (rev ?ys) @ dropWhile py_isspace (rev ?ys))"
      by (rule arg_cong)
    then show ?thesis by (simp only: rev_rev_ident rev_append py_strip_def)
  qed
  from assms split have ne: "?ys \<noteq> []" by (metis append_is_Nil_conv)
  from split assms have "hd ?ys = hd (py_strip s)"
    by (metis hd_append2)
  moreover have "\<not> py_isspace (hd ?ys)" using ne by (rule hd_dropWhile)
  ultimately show ?thesis by simp
qed

text \<open>
  Claim C8. For every waveform on which transcription succeeds, the transcript returned
  is the tokenizer's decoded text lowercased and then stripped; it holds no uppercase
  letter, and it neither starts nor ends with whitespace.
\<close>

theorem transcribe_audio_lower_stripped:
  assumes "transcribe_audio env g audio = Inr t"
  shows "\<exists>d. decoded_text env g audio = Inr d \<and> t = py_strip (py_lower d)
           \<and> list_all (\<lambda>c. \<not> py_isupper c) t
           \<and> (t = [] \<or> (\<not> py_isspace (hd t) \<and> \<not> py_isspace (last t)))"
proof -
  from assms obtain d
    where d: "decoded_text env g audio = Inr d" and t: "t = py_strip (py_lower d)"
    by (auto simp: transcribe_audio_def and_then_def split: sum.splits)
  have "list_all (\<lambda>c. \<not> py_isupper c) t"
    using py_lower_no_upper [of d] set_py_strip [of "py_lower d"]
    by (auto simp: t list_all_iff)
  moreover have "t = [] \<or> (\<not> py_isspace (hd t) \<and> \<not> py_isspace (last t))"
    using py_strip_hd [of "py_lower d"] py_strip_last [of "py_lower d"] by (auto simp: t)
  ultimately show ?thesis using d t by blast
qed

theorem transcribe_audio_lower_stripped_witness:
  "transcribe_audio demo_env loaded_globals [Fin 1] = Inr ''hello world''
   \<and> decoded_text demo_env loaded_globals [Fin 1] = Inr '' HELLO WORLD ''"
proof -
  have h: "transcribe_audio demo_env loaded_globals [Fin 1] = Inr ''hello world''"
    by code_simp
  have d: "decoded_text demo_env loaded_globals [Fin 1] = Inr '' HELLO WORLD ''"
    by code_simp
  from transcribe_audio_lower_stripped [OF h] h d show ?thesis by simp
qed

subsection \<open>The transcription handler\<close>

lemma startswith_nonempty: "startswith ct ''audio/'' \<Longrightarrow> ct \<noteq> []"
  by (auto simp: startswith_def)

lemma transcribe_file_unloaded:
  "model g = None \<or> tokenizer g = None \<Longrightarrow>
   transcribe_file env g w upl =
     (Inl (HTTPException 503 ''Model not loaded. Please check health endpoint.''), w)"
  by (simp add: transcribe_file_def)

lemma transcribe_file_rejected:
  assumes "model g \<noteq> None" "tokenizer g \<noteq> None"
    and "\<not> (\<exists>ct. content_type upl = Some ct \<and> startswith ct ''audio/'')"
  shows "transcribe_file env g w upl
           = (Inl (HTTPException 400 ''Please upload an audio file''), w)"
  using assms by (auto simp: transcribe_file_def split: option.splits)

lemma transcribe_file_tempfail:
  assumes "model g \<noteq> None" "tokenizer g \<noteq> None"
    and "content_type upl = Some ct" "startswith ct ''audio/''"
    and "named_temporary_file env (files w) ''.wav'' = Inl msg"
  shows "transcribe_file env g w upl = (Inl (PyException msg), w)"
  using assms startswith_nonempty [OF assms(4)] by (simp add: transcribe_file_def)

lemma transcribe_file_accepted:
  assumes "model g \<noteq> None" "tokenizer g \<noteq> None"
    and "content_type upl = Some ct" "startswith ct ''audio/''"
    and "named_temporary_file env (files w) ''.wav'' = Inr name"
  shows "transcribe_file env g w upl =
     (let w0 = log_call (TempCreated name) (w\<lparr>files := (files w)(name \<mapsto> [])\<rparr>);
          rw = try_block env g w0 upl name
      in ((case fst rw of Inl e \<Rightarrow> Inl (HTTPException 500 (str_exn env e)) | Inr v \<Rightarrow> Inr v),
          finally_block env (snd rw) name))"
  using assms startswith_nonempty [OF assms(4)]
  by (auto simp: transcribe_file_def Let_def split: prod.splits)

lemma try_block_calls:
  "\<exists>xs. calls (snd (try_block env g w upl name)) = calls w @ xs \<and> Unlink name \<notin> set xs"
  by (auto simp: try_block_def log_call_def Let_def split: sum.splits option.splits)

lemma try_block_files:
  "files w name \<noteq> None \<Longrightarrow> files (snd (try_block env g w upl name)) name \<noteq> None"
  by (auto simp: try_block_def log_call_def Let_def split: sum.splits option.splits)

lemma finally_block_calls: "calls (finally_block env w name) = calls w @ [Unlink name]"
  by (simp add: finally_block_def log_call_def Let_def split: option.splits)

lemma finally_block_files:
  "files w name \<noteq> None \<Longrightarrow>
   (files (finally_block env w name) name = None) = (os_unlink env name = None)"
  by (auto simp: finally_block_def log_call_def Let_def split: option.splits)

text \<open>
  Whatever the libraries do, a decode failure inside the handler is answered with
  status 500: the \<open>HTTPException 400\<close> of \<open>preprocess_audio\<close> is caught by the
  handler's \<^verbatim>\<open>except Exception\<close> and wrapped again.
\<close>

lemma decode_failure_gives_500:
  assumes "model g \<noteq> None" "tokenizer g \<noteq> None"
    and "content_type upl = Some ct" "startswith ct ''audio/''"
    and "named_temporary_file env (files w) ''.wav'' = Inr name"
    and "read_result upl = Inr content"
    and "temp_write env name content = None" "temp_flush env name = None"
    and "librosa_load env ((files w)(name \<mapsto> content)) name 16000 = Inl msg"
  shows "fst (transcribe_file env g w upl)
     = Inl (HTTPException 500
         (http_exception_str env 400 (''Audio preprocessing failed: '' @ msg)))"
proof -
  have "fst (try_block env g
          (log_call (TempCreated name) (w\<lparr>files := (files w)(name \<mapsto> [])\<rparr>)) upl name)
      = Inl (HTTPException 400 (''Audio preprocessing failed: '' @ msg))"
    using assms(6-9)
    by (simp add: try_block_def log_call_def Let_def preprocess_audio_failure)
  then show ?thesis
    using transcribe_file_accepted [OF assms(1-5)] by (simp add: Let_def str_exn_def)
qed

text \<open>
  Claim C2. A request whose uploaded file cannot be decoded (a 0-byte file declared as
  audio/wav) is to be answered with status 400. The code answers it with status 500: the
  request below, with the model loaded, gets 500.
\<close>

theorem undecodable_upload_gets_500:
  "fst (app demo_env loaded_globals empty_world
     \<lparr>target = PostTranscribe (upload (Some ''audio/wav'') []), request_data = []\<rparr>)
   = (500, Json [(''detail'',
        ''Audio preprocessing failed: Error opening file: format not recognised'')])"
  by (simp add: app_def transcribe_file_def try_block_def finally_block_def log_call_def
      preprocess_audio_def and_then_def lib_def str_exn_def respond_def
      demo_env_simps demo_load_def loaded_globals_def empty_world_def upload_def
      startswith_def Let_def)

text \<open>
  Claim C4. Every request to POST /transcribe made while the model is not loaded (the
  global model or tokenizer is unset) is answered with status 503 and leaves the world as
  it was: no step is called, and the preprocessing step in particular is not.
\<close>

theorem transcribe_unloaded_503:
  assumes "model g = None \<or> tokenizer g = None"
  shows "app env g w \<lparr>target = PostTranscribe upl, request_data = d\<rparr>
           = ((503, Json [(''detail'', ''Model not loaded. Please check health endpoint.'')]), w)
       \<and> \<not> list_ex is_preprocess (new_calls w (snd (transcribe_file env g w upl)))"
  using transcribe_file_unloaded [OF assms, of env w upl]
  by (simp add: app_def respond_def new_calls_def)

theorem transcribe_unloaded_503_witness:
  "model initial_globals = None
   \<and> app demo_env initial_globals empty_world
        \<lparr>target = PostTranscribe (upload (Some ''audio/wav'') [1, 2]), request_data = []\<rparr>
       = ((503, Json [(''detail'', ''Model not loaded. Please check health endpoint.'')]),
          empty_world)"
proof -
  have h: "model initial_globals = None \<or> tokenizer initial_globals = None"
    by (simp add: initial_globals_def)
  have h1: "model initial_globals = None" by (simp add: initial_globals_def)
  show ?thesis
    using h1 transcribe_unloaded_503 [OF h, of demo_env empty_world
        "upload (Some ''audio/wav'') [1, 2]" "[]"]
    by simp
qed

subsection \<open>Model loading\<close>

lemma load_model_pretrained_failure:
  assumes "isl (tokenizer_from_pretrained env ''facebook/wav2vec2-base-960h'')
         \<or> isl (model_from_pretrained env ''facebook/wav2vec2-base-960h'')"
  shows "fst (load_model env initial_globals) = False
       \<and> model (snd (load_model env initial_globals)) = None"
  using assms
  by (auto simp: load_model_def initial_globals_def Let_def isl_def split: sum.splits)

text \<open>
  When \<open>model.to(device)\<close> raises, \<open>load_model\<close> returns False although the global
  \<^verbatim>\<open>model\<close> is already assigned.
\<close>

lemma load_model_to_failure_keeps_model:
  "fst (load_model (demo_env\<lparr>model_to := (\<lambda>m d. Inl ''CUDA out of memory'')\<rparr>)
          initial_globals) = False
   \<and> model (snd (load_model (demo_env\<lparr>model_to := (\<lambda>m d. Inl ''CUDA out of memory'')\<rparr>)
          initial_globals)) \<noteq> None"
  by (simp add: load_model_def demo_env_def initial_globals_def Let_def)

text \<open>
  Claim C3, as amended. If loading the tokenizer or the model with \<open>from_pretrained\<close>
  raises, \<open>load_model\<close> returns False and the global model stays unset (the device, and
  the tokenizer when it was loaded, are assigned all the same), and every later
  transcription request is answered with status 503 and changes nothing.
\<close>

theorem load_failure_rejects_requests:
  assumes "isl (tokenizer_from_pretrained env ''facebook/wav2vec2-base-960h'')
         \<or> isl (model_from_pretrained env ''facebook/wav2vec2-base-960h'')"
  shows "fst (load_model env initial_globals) = False
       \<and> model (startup_event env initial_globals) = None
       \<and> app env1 (startup_event env initial_globals) w
            \<lparr>target = PostTranscribe upl, request_data = d\<rparr>
           = ((503, Json [(''detail'', ''Model not loaded. Please check health endpoint.'')]), w)"
proof -
  have m: "model (startup_event env initial_globals) = None"
    using load_model_pretrained_failure [OF assms] by (simp add: startup_event_def)
  then have "transcribe_file env1 (startup_event env initial_globals) w upl
      = (Inl (HTTPException 503 ''Model not loaded. Please check health endpoint.''), w)"
    by (simp add: transcribe_file_unloaded)
  then show ?thesis
    using load_model_pretrained_failure [OF assms] m by (simp add: app_def respond_def)
qed

theorem load_failure_rejects_requests_witness:
  "isl (tokenizer_from_pretrained offline_env ''facebook/wav2vec2-base-960h'')
   \<and> fst (load_model offline_env initial_globals) = False
   \<and> model (startup_event offline_env initial_globals) = None
   \<and> fst (fst (app demo_env (startup_event offline_env initial_globals) empty_world
        \<lparr>target = PostTranscribe (upload (Some ''audio/wav'') [1, 2]), request_data = []\<rparr>))
       = 503"
proof -
  have h: "isl (tokenizer_from_pretrained offline_env ''facebook/wav2vec2-base-960h'')
         \<or> isl (model_from_pretrained offline_env ''facebook/wav2vec2-base-960h'')"
    by (simp add: offline_env_def)
  have h1: "isl (tokenizer_from_pretrained offline_env ''facebook/wav2vec2-base-960h'')"
    by (simp add: offline_env_def)
  show ?thesis
    using h1 load_failure_rejects_requests [OF h, of demo_env empty_world
        "upload (Some ''audio/wav'') [1, 2]" "[]"]
    by simp
qed

text \<open>
  The statement as first written (after a failed load the model, the tokenizer and the
  device are all unset) fails when the tokenizer cannot be fetched: \<open>load_model\<close> returns
  False and the device is set.
\<close>

theorem failed_load_leaves_device_set:
  "fst (load_model offline_env initial_globals) = False
   \<and> device (snd (load_model offline_env initial_globals)) = Some Cpu"
  by (simp add: load_model_def offline_env_def demo_env_def initial_globals_def Let_def)

subsection \<open>Scratch files\<close>

text \<open>
  Claim C5, as amended. For every request that creates a scratch file, \<open>os.unlink\<close> is
  called on that file exactly once, as the last step of the request, whatever the outcome
  of reading, writing, preprocessing and inference; at the end of the request the file is
  gone exactly when that call succeeds (a failure of the deletion is swallowed and
  leaves the file).
\<close>

theorem scratch_file_cleanup:
  assumes "model g \<noteq> None" "tokenizer g \<noteq> None"
    and "content_type upl = Some ct" "startswith ct ''audio/''"
    and "named_temporary_file env (files w) ''.wav'' = Inr name"
  shows "\<exists>xs. new_calls w (snd (transcribe_file env g w upl))
                 = TempCreated name # xs @ [Unlink name]
            \<and> Unlink name \<notin> set xs
            \<and> (files (snd (transcribe_file env g w upl)) name = None)
                = (os_unlink env name = None)"
proof -
  define w0 where "w0 = log_call (TempCreated name) (w\<lparr>files := (files w)(name \<mapsto> [])\<rparr>)"
  define w1 where "w1 = snd (try_block env g w0 upl name)"
  have snd_eq: "snd (transcribe_file env g w upl) = finally_block env w1 name"
    using transcribe_file_accepted [OF assms] by (simp add: Let_def w0_def w1_def)
  obtain xs where xs: "calls w1 = calls w0 @ xs" "Unlink name \<notin> set xs"
    using try_block_calls [of env g w0 upl name] unfolding w1_def by blast
  have c0: "calls w0 = calls w @ [TempCreated name]"
    by (simp add: w0_def log_call_def)
  have f0: "files w0 name \<noteq> None" by (simp add: w0_def log_call_def)
  then have f1: "files w1 name \<noteq> None" unfolding w1_def by (rule try_block_files)
  have "new_calls w (finally_block env w1 name) = TempCreated name # xs @ [Unlink name]"
    by (simp add: new_calls_def finally_block_calls xs(1) c0)
  moreover have "(files (finally_block env w1 name) name = None) = (os_unlink env name = None)"
    using f1 by (rule finally_block_files)
  ultimately show ?thesis using xs(2) by (auto simp: snd_eq)
qed

theorem scratch_file_cleanup_witness:
  "model loaded_globals \<noteq> None \<and> tokenizer loaded_globals \<noteq> None
   \<and> content_type (upload (Some ''audio/wav'') []) = Some ''audio/wav''
   \<and> startswith ''audio/wav'' ''audio/''
   \<and> named_temporary_file demo_env (files empty_world) ''.wav'' = Inr ''/tmp/tmpq3x.wav''
   \<and> os_unlink demo_env ''/tmp/tmpq3x.wav'' = None
   \<and> files (snd (transcribe_file demo_env loaded_globals empty_world
        (upload (Some ''audio/wav'') []))) ''/tmp/tmpq3x.wav'' = None"
proof -
  have h1: "model loaded_globals \<noteq> None" by (simp add: loaded_globals_def)
  have h2: "tokenizer loaded_globals \<noteq> None" by (simp add: loaded_globals_def)
  have h3: "content_type (upload (Some ''audio/wav'') []) = Some ''audio/wav''"
    by (simp add: upload_def)
  have h4: "startswith ''audio/wav'' ''audio/''" by (simp add: startswith_def)
  have h5: "named_temporary_file demo_env (files empty_world) ''.wav'' = Inr ''/tmp/tmpq3x.wav''"
    by (simp add: demo_env_def)
  have h6: "os_unlink demo_env ''/tmp/tmpq3x.wav'' = None" by (simp add: demo_env_def)
  from scratch_file_cleanup [OF h1 h2 h3 h4 h5] h6
  have "files (snd (transcribe_file demo_env loaded_globals empty_world
          (upload (Some ''audio/wav'') []))) ''/tmp/tmpq3x.wav'' = None"
    by blast
  with h1 h2 h3 h4 h5 h6 show ?thesis by simp
qed

text \<open>
  The statement as first written (the scratch file is deleted in every outcome) fails
  when \<open>os.unlink\<close> raises: the request succeeds with status 200 and its scratch file is
  still on disk afterwards.
\<close>

theorem scratch_file_survives_failed_unlink:
  "http_status (fst (transcribe_file locked_env loaded_globals empty_world
       (upload (Some ''audio/wav'') [1, 2]))) = 200
   \<and> files (snd (transcribe_file locked_env loaded_globals empty_world
       (upload (Some ''audio/wav'') [1, 2]))) ''/tmp/tmpq3x.wav'' = Some [1, 2]"
  by (simp add: transcribe_file_def try_block_def finally_block_def log_call_def
      preprocess_audio_def transcribe_audio_def decoded_text_def and_then_def lib_def
      str_exn_def respond_def http_status_def locked_env_def demo_env_def demo_load_def
      demo_tokenizer_def demo_model_def loaded_globals_def empty_world_def upload_def
      startswith_def Let_def)

subsection \<open>Validation of the upload\<close>

lemma demo_preprocess_ok:
  assumes "bs \<noteq> []" and "fs p = Some bs"
  shows "\<exists>audio. preprocess_audio demo_env fs p = Inr audio"
proof -
  from assms(1) obtain b bs' where "bs = b # bs'" by (cases bs) auto
  with assms(2) show ?thesis
    by (simp add: preprocess_audio_def and_then_def lib_def demo_env_simps demo_load_def)
qed

text \<open>The size of the upload is never compared with \<open>MAX_FILE_SIZE\<close>.\<close>

lemma oversized_upload_accepted:
  assumes "MAX_FILE_SIZE < length bs"
  shows "http_status (fst (transcribe_file demo_env loaded_globals empty_world
           (upload (Some ''audio/wav'') bs))) = 200"
proof -
  from assms have ne: "bs \<noteq> []" by auto
  let ?name = "''/tmp/tmpq3x.wav''"
  obtain audio where a: "preprocess_audio demo_env [?name \<mapsto> bs] ?name = Inr audio"
    using demo_preprocess_ok [OF ne, of "[?name \<mapsto> bs]" ?name] by auto
  have t: "transcribe_audio demo_env loaded_globals audio = Inr ''hello world''"
    by (simp add: transcribe_audio_def decoded_text_def and_then_def lib_def demo_env_simps
        loaded_globals_def demo_tokenizer_def demo_model_def py_strip_def py_lower_def
        py_lower_char_def py_isupper_def py_isspace_def Let_def char_of_eq_iff
        take_bit_eq_mod)
  show ?thesis
    using a t
    by (simp add: transcribe_file_def try_block_def finally_block_def log_call_def
        http_status_def respond_def demo_env_simps loaded_globals_def empty_world_def
        upload_def startswith_def Let_def)
qed

text \<open>
  Claim C6, as amended. Of the declared upload limits the handler enforces only a test
  of the declared content type for the prefix audio/: with the model loaded, a request is
  rejected with status 400 exactly when its content type is missing, empty or does not
  start with audio/. Neither the list \<open>ALLOWED_AUDIO_TYPES\<close> nor \<open>MAX_FILE_SIZE\<close> is
  consulted.
\<close>

theorem upload_validation:
  assumes "model g \<noteq> None" "tokenizer g \<noteq> None"
  shows "(http_status (fst (transcribe_file env g w upl)) = 400)
         = (\<not> (\<exists>ct. content_type upl = Some ct \<and> startswith ct ''audio/''))"
proof (cases "\<exists>ct. content_type upl = Some ct \<and> startswith ct ''audio/''")
  case False
  then show ?thesis
    using transcribe_file_rejected [OF assms False]
    by (simp add: http_status_def respond_def)
next
  case True
  then obtain ct where ct: "content_type upl = Some ct" "startswith ct ''audio/''" by blast
  show ?thesis
  proof (cases "named_temporary_file env (files w) ''.wav''")
    case (Inl msg)
    show ?thesis
      using transcribe_file_tempfail [OF assms ct Inl] True
      by (simp add: http_status_def respond_def)
  next
    case (Inr name)
    show ?thesis
      using transcribe_file_accepted [OF assms ct Inr] True
      by (auto simp: http_status_def respond_def Let_def split: sum.splits)
  qed
qed

theorem upload_validation_witness:
  "model loaded_globals \<noteq> None \<and> tokenizer loaded_globals \<noteq> None
   \<and> http_status (fst (transcribe_file demo_env loaded_globals empty_world
        (upload (Some ''text/plain'') [1, 2]))) = 400"
proof -
  have h1: "model loaded_globals \<noteq> None" by (simp add: loaded_globals_def)
  have h2: "tokenizer loaded_globals \<noteq> None" by (simp add: loaded_globals_def)
  have "\<not> (\<exists>ct. content_type (upload (Some ''text/plain'') [1, 2]) = Some ct
            \<and> startswith ct ''audio/'')"
    by (simp add: upload_def startswith_def)
  with upload_validation [OF h1 h2, of demo_env empty_world
      "upload (Some ''text/plain'') [1, 2]"] h1 h2
  show ?thesis by simp
qed

text \<open>
  The statement as first written (a request whose declared type is outside the allowed
  list is rejected) fails for the type audio/x-custom, which is not in
  \<open>ALLOWED_AUDIO_TYPES\<close>: the request is transcribed and answered with status 200.
\<close>

theorem unlisted_audio_type_accepted:
  "''audio/x-custom'' \<notin> set ALLOWED_AUDIO_TYPES
   \<and> fst (app demo_env loaded_globals empty_world
        \<lparr>target = PostTranscribe (upload (Some ''audio/x-custom'') [1, 2]),
         request_data = []\<rparr>)
     = (200, Json [(''filename'', ''clip.wav''), (''transcription'', ''hello world''),
                   (''status'', ''success'')])"
  by code_simp

text \<open>
  Claim C10, as amended. While the model is loaded, every request to POST /transcribe
  whose declared content type is missing or empty is answered with status 400 and leaves
  the world as it was: no scratch file is created and no step is called.
\<close>

theorem missing_content_type_400:
  assumes "model g \<noteq> None" "tokenizer g \<noteq> None"
    and "content_type upl = None \<or> content_type upl = Some []"
  shows "app env g w \<lparr>target = PostTranscribe upl, request_data = d\<rparr>
           = ((400, Json [(''detail'', ''Please upload an audio file'')]), w)
       \<and> new_calls w (snd (transcribe_file env g w upl)) = []"
proof -
  from assms(3) have "\<not> (\<exists>ct. content_type upl = Some ct \<and> startswith ct ''audio/'')"
    by (auto simp: startswith_def)
  from transcribe_file_rejected [OF assms(1,2) this, of env w]
  show ?thesis by (simp add: app_def respond_def new_calls_def)
qed

theorem missing_content_type_400_witness:
  "model loaded_globals \<noteq> None \<and> tokenizer loaded_globals \<noteq> None
   \<and> content_type (upload None [1, 2]) = None
   \<and> app demo_env loaded_globals empty_world
        \<lparr>target = PostTranscribe (upload None [1, 2]), request_data = []\<rparr>
       = ((400, Json [(''detail'', ''Please upload an audio file'')]), empty_world)"
proof -
  have h1: "model loaded_globals \<noteq> None" by (simp add: loaded_globals_def)
  have h2: "tokenizer loaded_globals \<noteq> None" by (simp add: loaded_globals_def)
  have h3: "content_type (upload None [1, 2]) = None" by (simp add: upload_def)
  then have h4: "content_type (upload None [1, 2]) = None
               \<or> content_type (upload None [1, 2]) = Some []"
    by simp
  from missing_content_type_400 [OF h1 h2 h4, of demo_env empty_world "[]"] h1 h2 h3
  show ?thesis by simp
qed

text \<open>
  The statement as first written (every request with a missing content type gets 400)
  fails while the model is not loaded: the check of the model comes first and the
  request gets 503.
\<close>

theorem missing_content_type_unloaded_503:
  "content_type (upload None [1, 2]) = None
   \<and> fst (app demo_env initial_globals empty_world
        \<lparr>target = PostTranscribe (upload None [1, 2]), request_data = []\<rparr>)
       = (503, Json [(''detail'', ''Model not loaded. Please check health endpoint.'')])"
  by (simp add: app_def transcribe_file_def respond_def initial_globals_def upload_def)

subsection \<open>Model information\<close>

text \<open>
  Claim C9. GET /models/info answers every request with status 200 and the same
  payload, whatever the request data, the model state and the world, and leaves the world
  as it was; the payload holds the model identifier, the architecture family, the
  supported sample rate and the list of supported formats.
\<close>

theorem model_info_fixed:
  "app env g w \<lparr>target = GetModelsInfo, request_data = d\<rparr> = ((200, Json model_info), w)
   \<and> map_of model_info ''model_name'' = Some MODEL_NAME
   \<and> map_of model_info ''model_type'' = Some ''Wav2Vec2ForCTC''
   \<and> map_of model_info ''supported_sample_rate'' = Some ''16000 Hz''
   \<and> map_of model_info ''supported_formats'' = Some ''wav, mp3, flac, m4a, ogg''"
  by (simp add: app_def respond_def model_info_def MODEL_NAME_def)

end
